theory Spec2Isabelle
  imports Main "HOL-Library.AList" "HOL-Library.Sublist"
begin

section \<open>The Kilo-Code client manager (src/mcpm/clients/managers/kilocode.py)\<close>

subsection \<open>JSON values and the Python operations the manager applies to them\<close>

text \<open>
  What \<^verbatim>\<open>json.load\<close> returns: \<^verbatim>\<open>None\<close>, \<^verbatim>\<open>bool\<close>, \<^verbatim>\<open>int\<close>, \<^verbatim>\<open>float\<close>
  (a finite binary float, mantissa and exponent), \<^verbatim>\<open>str\<close>, \<^verbatim>\<open>list\<close> and \<^verbatim>\<open>dict\<close>.
  A \<^verbatim>\<open>dict\<close> is an association list in insertion order, the order \<^verbatim>\<open>json.dump\<close>
  writes; lookup, update and deletion are those of a map (\<open>map_of\<close>,
  \<open>AList.update\<close>, which replaces in place or appends, and \<open>AList.delete\<close>).
\<close>

datatype json =
    JNull
  | JBool bool
  | JInt int
  | JFloat int int
  | JStr string
  | JArr "json list"
  | JObj "(string \<times> json) list"

text \<open>The exceptions Python raises by itself in the three operations.\<close>

datatype pyerror = TypeError | AttributeError | KeyError

text \<open>The document \<^verbatim>\<open>_load_config\<close> returns and \<^verbatim>\<open>_save_config\<close> takes: \<^verbatim>\<open>Dict[str, Any]\<close>.\<close>

type_synonym config = "(string \<times> json) list"

definition bind_err :: "pyerror + 'a \<Rightarrow> ('a \<Rightarrow> pyerror + 'b) \<Rightarrow> pyerror + 'b" where
  "bind_err m f = (case m of Inl e \<Rightarrow> Inl e | Inr v \<Rightarrow> f v)"

text \<open>
  \<^verbatim>\<open>s in v\<close> for a string \<open>s\<close>: a key of a dict, an element of a list, a substring of
  a string; \<^verbatim>\<open>TypeError\<close> on \<^verbatim>\<open>None\<close>, booleans and numbers.
\<close>

fun py_contains :: "json \<Rightarrow> string \<Rightarrow> pyerror + bool" where
  "py_contains (JObj d) s = Inr (map_of d s \<noteq> None)"
| "py_contains (JArr xs) s = Inr (JStr s \<in> set xs)"
| "py_contains (JStr t) s = Inr (sublist s t)"
| "py_contains JNull s = Inl TypeError"
| "py_contains (JBool b) s = Inl TypeError"
| "py_contains (JInt i) s = Inl TypeError"
| "py_contains (JFloat m e) s = Inl TypeError"

text \<open>\<^verbatim>\<open>v[s]\<close> for a string \<open>s\<close>: only a dict can be subscripted by a string.\<close>

fun py_getitem :: "json \<Rightarrow> string \<Rightarrow> pyerror + json" where
  "py_getitem (JObj d) s = (case map_of d s of None \<Rightarrow> Inl KeyError | Some v \<Rightarrow> Inr v)"
| "py_getitem JNull s = Inl TypeError"
| "py_getitem (JBool b) s = Inl TypeError"
| "py_getitem (JInt i) s = Inl TypeError"
| "py_getitem (JFloat m e) s = Inl TypeError"
| "py_getitem (JStr t) s = Inl TypeError"
| "py_getitem (JArr xs) s = Inl TypeError"

text \<open>\<^verbatim>\<open>v[s] = x\<close>: the value \<open>v\<close> after the assignment.\<close>

fun py_setitem :: "json \<Rightarrow> string \<Rightarrow> json \<Rightarrow> pyerror + json" where
  "py_setitem (JObj d) s x = Inr (JObj (AList.update s x d))"
| "py_setitem JNull s x = Inl TypeError"
| "py_setitem (JBool b) s x = Inl TypeError"
| "py_setitem (JInt i) s x = Inl TypeError"
| "py_setitem (JFloat m e) s x = Inl TypeError"
| "py_setitem (JStr t) s x = Inl TypeError"
| "py_setitem (JArr xs) s x = Inl TypeError"

text \<open>\<^verbatim>\<open>del v[s]\<close>: the value \<open>v\<close> after the deletion.\<close>

fun py_delitem :: "json \<Rightarrow> string \<Rightarrow> pyerror + json" where
  "py_delitem (JObj d) s =
     (if map_of d s = None then Inl KeyError else Inr (JObj (AList.delete s d)))"
| "py_delitem JNull s = Inl TypeError"
| "py_delitem (JBool b) s = Inl TypeError"
| "py_delitem (JInt i) s = Inl TypeError"
| "py_delitem (JFloat m e) s = Inl TypeError"
| "py_delitem (JStr t) s = Inl TypeError"
| "py_delitem (JArr xs) s = Inl TypeError"

text \<open>\<^verbatim>\<open>v.get(s, dflt)\<close>: only a dict has the method.\<close>

fun py_get :: "json \<Rightarrow> string \<Rightarrow> json \<Rightarrow> pyerror + json" where
  "py_get (JObj d) s dflt = Inr (case map_of d s of None \<Rightarrow> dflt | Some v \<Rightarrow> v)"
| "py_get JNull s dflt = Inl AttributeError"
| "py_get (JBool b) s dflt = Inl AttributeError"
| "py_get (JInt i) s dflt = Inl AttributeError"
| "py_get (JFloat m e) s dflt = Inl AttributeError"
| "py_get (JStr t) s dflt = Inl AttributeError"
| "py_get (JArr xs) s dflt = Inl AttributeError"

subsection \<open>The config file and the inherited load and save\<close>

text \<open>
  The file at \<^verbatim>\<open>self.config_path\<close>: absent, not valid JSON, or a JSON object. With it
  the rest of what a call can observe or change: whether the write primitive succeeds,
  the documents written so far, and the warnings logged so far.
\<close>

datatype file_content = Missing | Unparsable | Document config

record world =
  stored :: file_content
  writable :: bool
  written :: "config list"
  warnings :: "string list"

text \<open>
  Modelled from the spec: the class attribute \<^verbatim>\<open>configure_key_name\<close> of the base class
  \<^verbatim>\<open>JSONClientManager\<close> (mcpm/clients/base.py), the key name of the server mapping.
\<close>

definition configure_key_name :: string where
  "configure_key_name = ''mcpServers''"

text \<open>\<^verbatim>\<open>_get_empty_config\<close> (line 42): \<^verbatim>\<open>{self.configure_key_name: {}}\<close>.\<close>

definition get_empty_config :: config where
  "get_empty_config = [(configure_key_name, JObj [])]"

text \<open>
  Modelled from the spec: \<^verbatim>\<open>_load_config\<close> of the base class \<^verbatim>\<open>JSONClientManager\<close>
  (mcpm/clients/base.py). It reads the file and parses the JSON, and returns the empty
  template when the file is missing or does not parse; it raises in neither case
  (section 4.4). Once the config is loaded the \<^verbatim>\<open>mcpServers\<close> key is present,
  created if missing (section 3): a parsed document without the key gets it, with an
  empty mapping, after its other members; a document that has the key comes back as
  the file holds it. The file itself is not touched.
\<close>

definition load_config :: "world \<Rightarrow> config" where
  "load_config w =
     (case stored w of
        Document d \<Rightarrow>
          (if map_of d configure_key_name = None
           then AList.update configure_key_name (JObj []) d
           else d)
      | Missing \<Rightarrow> get_empty_config
      | Unparsable \<Rightarrow> get_empty_config)"

text \<open>
  Modelled from the spec: \<^verbatim>\<open>_save_config\<close> of the base class \<^verbatim>\<open>JSONClientManager\<close>
  (mcpm/clients/base.py). It serialises the document back to the path, a full overwrite,
  and its result is the success indicator the callers return. The spec leaves a failing
  write to the collaborator: here it reports \<open>False\<close> and the file stays as it was.
\<close>

definition save_config :: "config \<Rightarrow> world \<Rightarrow> bool \<times> world" where
  "save_config config w =
     (if writable w
      then (True, w\<lparr>stored := Document config, written := written w @ [config]\<rparr>)
      else (False, w))"

text \<open>\<^verbatim>\<open>logger.warning(msg)\<close>.\<close>

definition warning :: "string \<Rightarrow> world \<Rightarrow> world" where
  "warning msg w = w\<lparr>warnings := warnings w @ [msg]\<rparr>"

text \<open>The f-string prefix \<^verbatim>\<open>f"Server '{server_name}'..."\<close> of the three messages.\<close>

definition server_msg :: "string \<Rightarrow> string \<Rightarrow> string" where
  "server_msg server_name rest = ''Server '' @ [CHR 0x27] @ server_name @ [CHR 0x27] @ rest"

subsection \<open>Enable and disable (lines 46 to 109)\<close>

text \<open>
  The guard of lines 58 and 79,
  \<^verbatim>\<open>self.configure_key_name not in config or server_name not in config[self.configure_key_name]\<close>;
  \<^verbatim>\<open>or\<close> does not evaluate its right operand when the left one is true.
\<close>

definition not_found :: "config \<Rightarrow> string \<Rightarrow> pyerror + bool" where
  "not_found config server_name =
     (case map_of config configure_key_name of
        None \<Rightarrow> Inr True
      | Some servers \<Rightarrow> bind_err (py_contains servers server_name) (\<lambda>b. Inr (\<not> b)))"

text \<open>
  The document after an in-place change of the object at
  \<^verbatim>\<open>config[self.configure_key_name][server_name]\<close>: the containers are the same objects,
  the entry keeps its place.
\<close>

definition with_entry :: "config \<Rightarrow> string \<Rightarrow> json \<Rightarrow> config" where
  "with_entry config server_name entry =
     (case map_of config configure_key_name of
        Some (JObj servers) \<Rightarrow>
          AList.update configure_key_name (JObj (AList.update server_name entry servers)) config
      | _ \<Rightarrow> config)"

text \<open>\<^verbatim>\<open>config[self.configure_key_name][server_name]\<close>, evaluated left to right.\<close>

definition get_entry :: "config \<Rightarrow> string \<Rightarrow> pyerror + json" where
  "get_entry config server_name =
     bind_err (py_getitem (JObj config) configure_key_name)
       (\<lambda>servers. py_getitem servers server_name)"

definition disable_server :: "string \<Rightarrow> world \<Rightarrow> (pyerror + bool) \<times> world" where
  "disable_server server_name w =
     (let config = load_config w in
      case not_found config server_name of
        Inl e \<Rightarrow> (Inl e, w)
      | Inr True \<Rightarrow>
          (Inr False, warning (server_msg server_name '' not found in active servers'') w)
      | Inr False \<Rightarrow>
          (case bind_err (get_entry config server_name)
                  (\<lambda>entry. py_setitem entry ''disabled'' (JBool True)) of
             Inl e \<Rightarrow> (Inl e, w)
           | Inr entry' \<Rightarrow>
               (let (ok, w') = save_config (with_entry config server_name entry') w
                in (Inr ok, w'))))"

definition enable_server :: "string \<Rightarrow> world \<Rightarrow> (pyerror + bool) \<times> world" where
  "enable_server server_name w =
     (let config = load_config w in
      case not_found config server_name of
        Inl e \<Rightarrow> (Inl e, w)
      | Inr True \<Rightarrow>
          (Inr False, warning (server_msg server_name '' not found in configuration'') w)
      | Inr False \<Rightarrow>
          (case bind_err (get_entry config server_name)
                  (\<lambda>entry. py_contains entry ''disabled'') of
             Inl e \<Rightarrow> (Inl e, w)
           | Inr False \<Rightarrow>
               (Inr True, warning (server_msg server_name '' is not disabled'') w)
           | Inr True \<Rightarrow>
               (case bind_err (get_entry config server_name)
                       (\<lambda>entry. py_delitem entry ''disabled'') of
                  Inl e \<Rightarrow> (Inl e, w)
                | Inr entry' \<Rightarrow>
                    (let (ok, w') = save_config (with_entry config server_name entry') w
                     in (Inr ok, w')))))"

text \<open>
  Lines 105 to 109: \<^verbatim>\<open>and\<close> stops at the first false operand; \<^verbatim>\<open>is True\<close> holds of
  the boolean \<^verbatim>\<open>True\<close> alone.
\<close>

definition is_server_disabled :: "string \<Rightarrow> world \<Rightarrow> (pyerror + bool) \<times> world" where
  "is_server_disabled server_name w =
     (let config = load_config w in
      (case map_of config configure_key_name of
         None \<Rightarrow> Inr False
       | Some servers \<Rightarrow>
           bind_err (py_contains servers server_name)
             (\<lambda>b. if \<not> b then Inr False
                  else bind_err (get_entry config server_name)
                         (\<lambda>entry. bind_err (py_get entry ''disabled'' (JBool False))
                            (\<lambda>v. Inr (v = JBool True))))),
      w)"

subsection \<open>Reading a document\<close>

text \<open>
  The entry of a server in a document, and a field of that entry: what the statements
  below read off the loaded and the written documents. Nothing is found where the
  server mapping or the entry is not a JSON object.
\<close>

definition entry_of :: "config \<Rightarrow> string \<Rightarrow> json option" where
  "entry_of config server_name =
     (case map_of config configure_key_name of
        Some (JObj servers) \<Rightarrow> map_of servers server_name
      | _ \<Rightarrow> None)"

definition field_of :: "config \<Rightarrow> string \<Rightarrow> string \<Rightarrow> json option" where
  "field_of config server_name key =
     (case entry_of config server_name of
        Some (JObj entry) \<Rightarrow> map_of entry key
      | _ \<Rightarrow> None)"

text \<open>The server names of a document, in the order the file lists them.\<close>

definition server_names :: "config \<Rightarrow> string list" where
  "server_names config =
     (case map_of config configure_key_name of
        Some (JObj servers) \<Rightarrow> map fst servers
      | _ \<Rightarrow> [])"

text \<open>
  The two states of an entry with respect to the feature: active, with no
  \<^verbatim>\<open>disabled\<close> key, and disabled, with \<^verbatim>\<open>disabled: true\<close>. An entry that is
  missing, is not an object, or carries any other \<^verbatim>\<open>disabled\<close> value has neither.
\<close>

datatype entry_state = Active | Disabled

definition state_of :: "config \<Rightarrow> string \<Rightarrow> entry_state option" where
  "state_of config server_name =
     (case entry_of config server_name of
        Some (JObj entry) \<Rightarrow>
          (case map_of entry ''disabled'' of
             None \<Rightarrow> Some Active
           | Some v \<Rightarrow> if v = JBool True then Some Disabled else None)
      | _ \<Rightarrow> None)"

subsection \<open>Sequences of calls\<close>

text \<open>
  A caller makes one call after another, on any server names; between two calls the
  environment may change whether a write succeeds. A call that raises leaves the world
  as it was, and the sequence goes on (the caller may catch the exception).
\<close>

datatype event = Disable string | Enable string | SetWritable bool

fun step :: "event \<Rightarrow> world \<Rightarrow> world" where
  "step (Disable n) w = snd (disable_server n w)"
| "step (Enable n) w = snd (enable_server n w)"
| "step (SetWritable b) w = w\<lparr>writable := b\<rparr>"

fun run :: "event list \<Rightarrow> world \<Rightarrow> world" where
  "run [] w = w"
| "run (e # es) w = run es (step e w)"

subsection \<open>Path resolution (lines 22 to 40)\<close>

text \<open>
  \<^verbatim>\<open>__init__\<close>. The base class has set \<^verbatim>\<open>self._system\<close> (the host's
  \<^verbatim>\<open>platform.system()\<close>) before the body runs; \<^verbatim>\<open>os.path.expanduser\<close>,
  \<^verbatim>\<open>os.path.join\<close> and \<^verbatim>\<open>os.environ\<close> are the host's, taken as parameters. The
  argument \<^verbatim>\<open>config_path\<close> defaults to \<^verbatim>\<open>None\<close>, and \<^verbatim>\<open>if config_path:\<close> is false
  of \<^verbatim>\<open>None\<close> and of the empty string. The body touches no file: the world comes back
  as it went in. The result is \<^verbatim>\<open>self.config_path\<close>.
\<close>

definition init ::
  "(string \<Rightarrow> string) \<Rightarrow> (string \<Rightarrow> string list \<Rightarrow> string) \<Rightarrow> (string \<Rightarrow> string option)
   \<Rightarrow> string \<Rightarrow> string option \<Rightarrow> world \<Rightarrow> string \<times> world" where
  "init expanduser join environ system config_path w =
     (if config_path \<noteq> None \<and> config_path \<noteq> Some []
      then (case config_path of Some p \<Rightarrow> p | None \<Rightarrow> [])
      else if system = ''Darwin''
      then expanduser
             ''~/Library/Application Support/Code/User/globalStorage/kilocode.kilo-code/settings/mcp_settings.json''
      else if system = ''Windows''
      then join (case environ ''APPDATA'' of Some v \<Rightarrow> v | None \<Rightarrow> [])
             [''Code'', ''User'', ''globalStorage'', ''kilocode.kilo-code'', ''settings'',
              ''mcp_settings.json'']
      else expanduser
             ''~/.config/Code/User/globalStorage/kilocode.kilo-code/settings/mcp_settings.json'',
      w)"

subsection \<open>Concrete inputs\<close>

text \<open>The document of the repository's own test, in a world where writes succeed.\<close>

definition test_doc :: config where
  "test_doc =
     [(''mcpServers'',
       JObj [(''test-server'',
              JObj [(''command'', JStr ''python''),
                    (''args'', JArr [JStr ''-m'', JStr ''test_server''])])])]"

definition test_world :: world where
  "test_world = \<lparr>stored = Document test_doc, writable = True, written = [], warnings = []\<rparr>"

text \<open>A file that holds the JSON object \<^verbatim>\<open>{}\<close>: valid JSON with no server mapping.\<close>

definition bare_world :: world where
  "bare_world = \<lparr>stored = Document [], writable = True, written = [], warnings = []\<rparr>"

text \<open>
  A home directory and the POSIX behaviour of \<^verbatim>\<open>os.path.expanduser\<close> and
  \<^verbatim>\<open>os.path.join\<close> on the arguments \<^verbatim>\<open>__init__\<close> passes: a leading \<^verbatim>\<open>~\<close>
  becomes the home directory, and the segments are joined with \<^verbatim>\<open>/\<close>, none after an
  empty first segment.
\<close>

definition posix_expanduser :: "string \<Rightarrow> string" where
  "posix_expanduser p = (case p of c # rest \<Rightarrow> if c = CHR ''~'' then ''/home/u'' @ rest else p
                         | [] \<Rightarrow> p)"

fun posix_join :: "string \<Rightarrow> string list \<Rightarrow> string" where
  "posix_join a [] = a"
| "posix_join a (b # bs) =
     posix_join (if a = [] \<or> last a = CHR ''/'' then a @ b else a @ ''/'' @ b) bs"


text \<open>The test document after the server has been disabled, and the world after that write.\<close>

definition disabled_doc :: config where
  "disabled_doc =
     [(''mcpServers'',
       JObj [(''test-server'',
              JObj [(''command'', JStr ''python''),
                    (''args'', JArr [JStr ''-m'', JStr ''test_server'']),
                    (''disabled'', JBool True)])])]"

definition disabled_world :: world where
  "disabled_world =
     \<lparr>stored = Document disabled_doc, writable = True, written = [disabled_doc],
      warnings = []\<rparr>"

text \<open>
  Entries whose \<^verbatim>\<open>disabled\<close> key holds \<^verbatim>\<open>true\<close>, \<^verbatim>\<open>false\<close>, \<^verbatim>\<open>1\<close> and
  \<^verbatim>\<open>"true"\<close>, and one without the key.
\<close>

definition mixed_world :: world where
  "mixed_world =
     \<lparr>stored = Document
        [(''mcpServers'',
          JObj [(''on'', JObj [(''command'', JStr ''a'')]),
                (''off'', JObj [(''command'', JStr ''b''), (''disabled'', JBool True)]),
                (''false'', JObj [(''command'', JStr ''c''), (''disabled'', JBool False)]),
                (''one'', JObj [(''command'', JStr ''d''), (''disabled'', JInt 1)]),
                (''text'', JObj [(''command'', JStr ''e''), (''disabled'', JStr ''true'')])])],
      writable = True, written = [], warnings = []\<rparr>"

text \<open>The world after the server has been enabled again: the test document, written back.\<close>

definition reenabled_world :: world where
  "reenabled_world =
     \<lparr>stored = Document test_doc, writable = True, written = [disabled_doc, test_doc],
      warnings = []\<rparr>"


text \<open>
  A file an editor or a user may have left behind: valid JSON in which the entry of
  server \<^verbatim>\<open>a\<close> is the number 5, not an object.
\<close>

definition odd_world :: world where
  "odd_world =
     \<lparr>stored = Document [(''mcpServers'', JObj [(''a'', JInt 5)])],
      writable = True, written = [], warnings = []\<rparr>"

text \<open>An environment without \<^verbatim>\<open>APPDATA\<close>, and the one of the repository's Windows test.\<close>

definition unset_environ :: "string \<Rightarrow> string option" where
  "unset_environ k = None"

definition test_environ :: "string \<Rightarrow> string option" where
  "test_environ k = (if k = ''APPDATA'' then Some ''C:/Users/Test/AppData/Roaming'' else None)"


section \<open>Properties\<close>

subsection \<open>The guard and the nested access on a well-shaped document\<close>

lemma not_found_absent:
  "map_of config configure_key_name = None \<Longrightarrow> not_found config name = Inr True"
  by (simp add: not_found_def)

lemma not_found_obj:
  "map_of config configure_key_name = Some (JObj servers) \<Longrightarrow>
   not_found config name = Inr (map_of servers name = None)"
  by (simp add: not_found_def bind_err_def)

lemma not_found_data:
  assumes "map_of config configure_key_name = None \<or>
    (\<exists>servers. map_of config configure_key_name = Some (JObj servers) \<and>
               map_of servers name = None)"
  shows "not_found config name = Inr True"
  using assms by (auto simp: not_found_absent not_found_obj)

lemma get_entry_obj:
  "map_of config configure_key_name = Some (JObj servers) \<Longrightarrow>
   map_of servers name = Some e \<Longrightarrow> get_entry config name = Inr e"
  by (simp add: get_entry_def bind_err_def)

lemma with_entry_obj:
  "map_of config configure_key_name = Some (JObj servers) \<Longrightarrow>
   with_entry config name e =
     AList.update configure_key_name (JObj (AList.update name e servers)) config"
  by (simp add: with_entry_def)

lemma entry_of_with_entry:
  "map_of config configure_key_name = Some (JObj servers) \<Longrightarrow>
   entry_of (with_entry config name e) n = (if n = name then Some e else map_of servers n)"
  by (simp add: with_entry_obj entry_of_def update_conv')

subsection \<open>The branches of the three operations\<close>

lemma disable_server_not_found:
  assumes "not_found (load_config w) name = Inr True"
  shows "disable_server name w =
           (Inr False, warning (server_msg name '' not found in active servers'') w)"
  using assms by (simp add: disable_server_def)

lemma disable_server_found:
  assumes "map_of (load_config w) configure_key_name = Some (JObj servers)"
    and "map_of servers name = Some (JObj entry)"
  shows "disable_server name w =
           apfst Inr (save_config (with_entry (load_config w) name
                        (JObj (AList.update ''disabled'' (JBool True) entry))) w)"
  using assms
  by (simp add: disable_server_def not_found_obj get_entry_obj bind_err_def apfst_def
      map_prod_def split: prod.splits)

lemma enable_server_not_found:
  assumes "not_found (load_config w) name = Inr True"
  shows "enable_server name w =
           (Inr False, warning (server_msg name '' not found in configuration'') w)"
  using assms by (simp add: enable_server_def)

lemma enable_server_not_disabled:
  assumes "map_of (load_config w) configure_key_name = Some (JObj servers)"
    and "map_of servers name = Some (JObj entry)"
    and "map_of entry ''disabled'' = None"
  shows "enable_server name w =
           (Inr True, warning (server_msg name '' is not disabled'') w)"
  using assms
  by (simp add: enable_server_def not_found_obj get_entry_obj bind_err_def)

lemma enable_server_disabled:
  assumes "map_of (load_config w) configure_key_name = Some (JObj servers)"
    and "map_of servers name = Some (JObj entry)"
    and "map_of entry ''disabled'' = Some v"
  shows "enable_server name w =
           apfst Inr (save_config (with_entry (load_config w) name
                        (JObj (AList.delete ''disabled'' entry))) w)"
  using assms
  by (simp add: enable_server_def not_found_obj get_entry_obj bind_err_def apfst_def
      map_prod_def split: prod.splits)

lemma is_server_disabled_world: "snd (is_server_disabled name w) = w"
  by (simp add: is_server_disabled_def Let_def)

lemma is_server_disabled_absent:
  assumes "map_of (load_config w) configure_key_name = None"
  shows "fst (is_server_disabled name w) = Inr False"
  using assms by (simp add: is_server_disabled_def)

lemma is_server_disabled_no_name:
  assumes "map_of (load_config w) configure_key_name = Some (JObj servers)"
    and "map_of servers name = None"
  shows "fst (is_server_disabled name w) = Inr False"
  using assms by (simp add: is_server_disabled_def bind_err_def)

lemma is_server_disabled_entry:
  assumes "map_of (load_config w) configure_key_name = Some (JObj servers)"
    and "map_of servers name = Some (JObj entry)"
  shows "fst (is_server_disabled name w) = Inr (map_of entry ''disabled'' = Some (JBool True))"
  using assms
  by (simp add: is_server_disabled_def bind_err_def get_entry_obj split: option.splits)

lemma is_server_disabled_true_iff:
  "fst (is_server_disabled name w) = Inr True \<longleftrightarrow>
   field_of (load_config w) name ''disabled'' = Some (JBool True)"
proof (cases "map_of (load_config w) configure_key_name")
  case None
  then show ?thesis
    by (simp add: is_server_disabled_absent field_of_def entry_of_def)
next
  case (Some servers)
  note s = this
  show ?thesis
  proof (cases servers)
    case (JObj d)
    note d = this
    show ?thesis
    proof (cases "map_of d name")
      case None
      with s d show ?thesis
        by (simp add: is_server_disabled_no_name field_of_def entry_of_def)
    next
      case (Some entry)
      note e = this
      show ?thesis
      proof (cases entry)
        case (JObj ed)
        with s d e show ?thesis
          by (simp add: is_server_disabled_entry field_of_def entry_of_def)
      qed (use s d e in \<open>simp_all add: is_server_disabled_def bind_err_def get_entry_def
             field_of_def entry_of_def\<close>)
    qed
  qed (use s in \<open>simp_all add: is_server_disabled_def bind_err_def get_entry_def
         field_of_def entry_of_def\<close>)
qed

text \<open>Every outcome of a call, whatever the shape of the document.\<close>

lemma disable_server_cases:
  "(\<exists>e. disable_server n w = (Inl e, w)) \<or>
   disable_server n w = (Inr False, warning (server_msg n '' not found in active servers'') w) \<or>
   (\<exists>servers entry.
      map_of (load_config w) configure_key_name = Some (JObj servers) \<and>
      map_of servers n = Some (JObj entry) \<and>
      disable_server n w =
        apfst Inr (save_config (with_entry (load_config w) n
                     (JObj (AList.update ''disabled'' (JBool True) entry))) w))"
proof (cases "map_of (load_config w) configure_key_name")
  case None
  then show ?thesis
    by (simp add: disable_server_not_found not_found_absent)
next
  case (Some servers)
  note s = this
  show ?thesis
  proof (cases servers)
    case (JObj d)
    note d = this
    show ?thesis
    proof (cases "map_of d n")
      case None
      with s d show ?thesis
        by (simp add: disable_server_not_found not_found_obj)
    next
      case (Some entry)
      note e = this
      show ?thesis
      proof (cases entry)
        case (JObj ed)
        with s d e show ?thesis
          by (simp add: disable_server_found)
      qed (use s d e in \<open>simp_all add: disable_server_def not_found_obj get_entry_obj
             bind_err_def\<close>)
    qed
  qed (use s in \<open>auto simp: disable_server_def not_found_def get_entry_def
         bind_err_def Let_def split: if_splits bool.splits\<close>)
qed

lemma enable_server_cases:
  "(\<exists>e. enable_server n w = (Inl e, w)) \<or>
   enable_server n w = (Inr False, warning (server_msg n '' not found in configuration'') w) \<or>
   enable_server n w = (Inr True, warning (server_msg n '' is not disabled'') w) \<or>
   (\<exists>servers entry v.
      map_of (load_config w) configure_key_name = Some (JObj servers) \<and>
      map_of servers n = Some (JObj entry) \<and> map_of entry ''disabled'' = Some v \<and>
      enable_server n w =
        apfst Inr (save_config (with_entry (load_config w) n
                     (JObj (AList.delete ''disabled'' entry))) w))"
proof (cases "map_of (load_config w) configure_key_name")
  case None
  then show ?thesis
    by (simp add: enable_server_not_found not_found_absent)
next
  case (Some servers)
  note s = this
  show ?thesis
  proof (cases servers)
    case (JObj d)
    note d = this
    show ?thesis
    proof (cases "map_of d n")
      case None
      with s d show ?thesis
        by (simp add: enable_server_not_found not_found_obj)
    next
      case (Some entry)
      note e = this
      show ?thesis
      proof (cases entry)
        case (JObj ed)
        with s d e show ?thesis
          by (cases "map_of ed ''disabled''")
             (simp_all add: enable_server_not_disabled enable_server_disabled)
      qed (use s d e in \<open>auto simp: enable_server_def not_found_obj get_entry_obj
             bind_err_def Let_def split: bool.splits\<close>)
    qed
  qed (use s in \<open>auto simp: enable_server_def not_found_def get_entry_def
         bind_err_def Let_def split: if_splits bool.splits\<close>)
qed

subsection \<open>Save, load and the observers\<close>

lemma field_of_Some_iff:
  "field_of config name key = Some v \<longleftrightarrow>
   (\<exists>servers entry. map_of config configure_key_name = Some (JObj servers) \<and>
      map_of servers name = Some (JObj entry) \<and> map_of entry key = Some v)"
  by (auto simp: field_of_def entry_of_def split: option.splits json.splits)

lemma apfst_Inr_eq:
  "apfst Inr p = (Inr b, w') \<longleftrightarrow> p = (b, w')"
  "(Inr b, w') = apfst Inr p \<longleftrightarrow> p = (b, w')"
  by (cases p; auto)+

lemma save_config_cases:
  "save_config doc w = (ok, w') \<Longrightarrow>
   (ok \<and> writable w \<and> w' = w\<lparr>stored := Document doc, written := written w @ [doc]\<rparr>) \<or>
   (\<not> ok \<and> \<not> writable w \<and> w' = w)"
  by (auto simp: save_config_def split: if_splits)

lemma map_of_with_entry:
  "map_of config configure_key_name = Some (JObj servers) \<Longrightarrow>
   map_of (with_entry config name e) configure_key_name =
     Some (JObj (AList.update name e servers))"
  by (simp add: with_entry_obj update_conv')

lemma load_after_save:
  assumes "map_of doc configure_key_name \<noteq> None"
    and "save_config doc w = (True, w')"
  shows "load_config w' = doc"
  using assms by (auto simp: save_config_def load_config_def split: if_splits)

lemma load_after_save_entry:
  assumes "map_of config configure_key_name = Some (JObj servers)"
    and "save_config (with_entry config n e) w = (True, w')"
  shows "load_config w' = with_entry config n e"
  using assms by (intro load_after_save) (simp_all add: map_of_with_entry)

lemma load_config_warning [simp]: "load_config (warning msg w) = load_config w"
  by (simp add: load_config_def warning_def)

lemma stored_warning [simp]: "stored (warning msg w) = stored w"
  by (simp add: warning_def)

lemma written_warning [simp]: "written (warning msg w) = written w"
  by (simp add: warning_def)

lemma found_is_document:
  assumes "map_of (load_config w) configure_key_name = Some (JObj servers)"
    and "map_of servers name = Some entry"
  shows "stored w = Document (load_config w)"
  using assms
  by (cases "stored w")
     (auto simp: load_config_def get_empty_config_def update_conv' split: if_splits)

lemma disable_server_success:
  assumes "disable_server n w = (Inr True, w')"
  shows "\<exists>servers entry.
           map_of (load_config w) configure_key_name = Some (JObj servers) \<and>
           map_of servers n = Some (JObj entry) \<and>
           save_config (with_entry (load_config w) n
                          (JObj (AList.update ''disabled'' (JBool True) entry))) w = (True, w')"
  using disable_server_cases [of n w] assms by (auto simp: apfst_Inr_eq)

lemma update_present_keys:
  "map_of al k = Some v \<Longrightarrow> map fst (AList.update k v' al) = map fst al"
  by (auto simp: update_keys dest!: map_of_SomeD intro: rev_image_eqI)

subsection \<open>The state of an entry along a sequence of calls\<close>

lemma load_config_saved:
  assumes "map_of config configure_key_name = Some (JObj servers)"
  shows "load_config (snd (save_config (with_entry config n e) w)) =
           (if writable w then with_entry config n e else load_config w)"
proof (cases "writable w")
  case True
  then have "save_config (with_entry config n e) w =
               (True, snd (save_config (with_entry config n e) w))"
    by (simp add: save_config_def)
  with assms have "load_config (snd (save_config (with_entry config n e) w)) =
                     with_entry config n e"
    by (rule load_after_save_entry)
  with True show ?thesis by simp
next
  case False
  then show ?thesis by (simp add: save_config_def)
qed

lemma load_config_writable [simp]: "load_config (w\<lparr>writable := b\<rparr>) = load_config w"
  by (simp add: load_config_def)

lemma state_of_with_entry_other:
  assumes "map_of config configure_key_name = Some (JObj servers)" and "n \<noteq> name"
  shows "state_of (with_entry config n e) name = state_of config name"
  using assms by (simp add: state_of_def entry_of_with_entry) (simp add: entry_of_def)

lemma state_of_disabled_entry:
  assumes "map_of config configure_key_name = Some (JObj servers)"
  shows "state_of (with_entry config name
           (JObj (AList.update ''disabled'' (JBool True) entry))) name = Some Disabled"
  using assms by (simp add: state_of_def entry_of_with_entry update_conv')

lemma state_of_enabled_entry:
  assumes "map_of config configure_key_name = Some (JObj servers)"
  shows "state_of (with_entry config name
           (JObj (AList.delete ''disabled'' entry))) name = Some Active"
  using assms by (simp add: state_of_def entry_of_with_entry delete_conv')

lemma disable_server_keeps_state:
  assumes "state_of (load_config w) name \<noteq> None"
  shows "state_of (load_config (snd (disable_server n w))) name \<noteq> None"
proof -
  consider (raised) e where "disable_server n w = (Inl e, w)"
    | (failed) "disable_server n w =
                  (Inr False, warning (server_msg n '' not found in active servers'') w)"
    | (saved) servers entry where
        "map_of (load_config w) configure_key_name = Some (JObj servers)"
        "disable_server n w =
           apfst Inr (save_config (with_entry (load_config w) n
                        (JObj (AList.update ''disabled'' (JBool True) entry))) w)"
    using disable_server_cases [of n w] by blast
  then show ?thesis
  proof cases
    case raised
    with assms show ?thesis by simp
  next
    case failed
    with assms show ?thesis by simp
  next
    case saved
    show ?thesis
    proof (cases "n = name")
      case True
      with saved assms show ?thesis
        by (simp add: load_config_saved state_of_disabled_entry)
    next
      case False
      with saved assms show ?thesis
        by (simp add: load_config_saved state_of_with_entry_other)
    qed
  qed
qed

lemma enable_server_keeps_state:
  assumes "state_of (load_config w) name \<noteq> None"
  shows "state_of (load_config (snd (enable_server n w))) name \<noteq> None"
proof -
  consider (raised) e where "enable_server n w = (Inl e, w)"
    | (failed) "enable_server n w =
                  (Inr False, warning (server_msg n '' not found in configuration'') w)"
    | (noop) "enable_server n w = (Inr True, warning (server_msg n '' is not disabled'') w)"
    | (saved) servers entry where
        "map_of (load_config w) configure_key_name = Some (JObj servers)"
        "enable_server n w =
           apfst Inr (save_config (with_entry (load_config w) n
                        (JObj (AList.delete ''disabled'' entry))) w)"
    using enable_server_cases [of n w] by blast
  then show ?thesis
  proof cases
    case raised
    with assms show ?thesis by simp
  next
    case failed
    with assms show ?thesis by simp
  next
    case noop
    with assms show ?thesis by simp
  next
    case saved
    show ?thesis
    proof (cases "n = name")
      case True
      with saved assms show ?thesis
        by (simp add: load_config_saved state_of_enabled_entry)
    next
      case False
      with saved assms show ?thesis
        by (simp add: load_config_saved state_of_with_entry_other)
    qed
  qed
qed

lemma step_keeps_state:
  assumes "state_of (load_config w) name \<noteq> None"
  shows "state_of (load_config (step ev w)) name \<noteq> None"
  using assms
  by (cases ev) (simp_all add: disable_server_keeps_state enable_server_keeps_state)

lemma run_keeps_state:
  "state_of (load_config w) name \<noteq> None \<Longrightarrow> state_of (load_config (run evs w)) name \<noteq> None"
proof (induction evs arbitrary: w)
  case Nil
  then show ?case by simp
next
  case (Cons ev evs)
  from Cons.prems have "state_of (load_config (step ev w)) name \<noteq> None"
    by (rule step_keeps_state)
  then show ?case
    using Cons.IH by simp
qed

lemma state_of_not_false:
  "state_of config name \<noteq> None \<Longrightarrow> field_of config name ''disabled'' \<noteq> Some (JBool False)"
  by (auto simp: state_of_def field_of_def split: option.splits json.splits if_splits)

lemma state_of_cases:
  "state_of config name \<noteq> None \<longleftrightarrow>
   state_of config name = Some Active \<or> state_of config name = Some Disabled"
  by (cases "state_of config name") (auto intro: entry_state.exhaust)

lemma state_of_SomeD:
  assumes "state_of config name = Some s"
  shows "\<exists>servers entry.
           map_of config configure_key_name = Some (JObj servers) \<and>
           map_of servers name = Some (JObj entry) \<and>
           (map_of entry ''disabled'' = None \<or> map_of entry ''disabled'' = Some (JBool True))"
  using assms
  by (auto simp: state_of_def entry_of_def split: option.splits json.splits if_splits)

subsection \<open>A write needs the entry\<close>



subsection \<open>What the load returns\<close>





subsection \<open>Disabling a server\<close>

text \<open>
  Claim C1 says that \<open>disable_server\<close> fails when the \<^verbatim>\<open>mcpServers\<close> key is absent
  or the name is not a key within it, and that otherwise it sets the entry's
  \<^verbatim>\<open>disabled\<close> key and saves. In the document below the key is present and
  \<^verbatim>\<open>a\<close> is a key within it, but its entry is the number 5: the assignment of line 63
  raises \<^verbatim>\<open>TypeError\<close>, nothing is set and nothing is saved.
\<close>

theorem disable_server_entry_counterexample:
  "map_of (load_config odd_world) configure_key_name = Some (JObj [(''a'', JInt 5)])
   \<and> map_of [(''a'', JInt 5)] ''a'' = Some (JInt 5)
   \<and> disable_server ''a'' odd_world = (Inl TypeError, odd_world)"
  by (simp add: disable_server_def not_found_def get_entry_def bind_err_def odd_world_def
      load_config_def configure_key_name_def)

text \<open>
  Claim C1, amended. For every loaded document and every server name,
  \<open>disable_server\<close> returns \<open>False\<close> and logs a warning when the \<^verbatim>\<open>mcpServers\<close>
  key is absent from the document or its value is a mapping in which the name is not a
  key, and the world changes in nothing but the warning. When the name is a key whose
  entry is itself a mapping, the entry's \<^verbatim>\<open>disabled\<close> key is set to the boolean
  \<open>True\<close> and the call is the save of that document: it returns the save result. In
  all these cases the result is a returned boolean, never an exception.
\<close>

theorem disable_server_contract:
  "(map_of (load_config w) configure_key_name = None \<or>
    (\<exists>servers. map_of (load_config w) configure_key_name = Some (JObj servers) \<and>
               map_of servers name = None)
    \<longrightarrow> disable_server name w =
          (Inr False, warning (server_msg name '' not found in active servers'') w))
   \<and> (\<forall>servers entry.
         map_of (load_config w) configure_key_name = Some (JObj servers) \<and>
         map_of servers name = Some (JObj entry)
         \<longrightarrow> (let doc = with_entry (load_config w) name
                            (JObj (AList.update ''disabled'' (JBool True) entry))
              in field_of doc name ''disabled'' = Some (JBool True) \<and>
                 disable_server name w = apfst Inr (save_config doc w)))"
proof (intro conjI impI allI)
  assume "map_of (load_config w) configure_key_name = None \<or>
    (\<exists>servers. map_of (load_config w) configure_key_name = Some (JObj servers) \<and>
               map_of servers name = None)"
  then have "not_found (load_config w) name = Inr True"
    by (rule not_found_data)
  then show "disable_server name w =
          (Inr False, warning (server_msg name '' not found in active servers'') w)"
    by (rule disable_server_not_found)
next
  fix servers entry
  assume h: "map_of (load_config w) configure_key_name = Some (JObj servers) \<and>
         map_of servers name = Some (JObj entry)"
  let ?doc = "with_entry (load_config w) name
                (JObj (AList.update ''disabled'' (JBool True) entry))"
  have "field_of ?doc name ''disabled'' = Some (JBool True)"
    using h by (simp add: field_of_def entry_of_with_entry update_conv')
  moreover have "disable_server name w = apfst Inr (save_config ?doc w)"
    using h by (simp add: disable_server_found)
  ultimately show "let doc = ?doc
              in field_of doc name ''disabled'' = Some (JBool True) \<and>
                 disable_server name w = apfst Inr (save_config doc w)"
    by (simp add: Let_def)
qed

text \<open>
  On the test document: an unknown name and a document without the key fail with the
  warning, and the known name is written back with \<^verbatim>\<open>"disabled": true\<close> appended.
\<close>

theorem disable_server_contract_witness:
  "disable_server ''other'' test_world =
     (Inr False, warning (server_msg ''other'' '' not found in active servers'') test_world)
   \<and> disable_server ''test-server'' bare_world =
     (Inr False, warning (server_msg ''test-server'' '' not found in active servers'') bare_world)
   \<and> disable_server ''test-server'' test_world =
     (Inr True,
      test_world\<lparr>stored := Document
        [(''mcpServers'',
          JObj [(''test-server'',
                 JObj [(''command'', JStr ''python''),
                       (''args'', JArr [JStr ''-m'', JStr ''test_server'']),
                       (''disabled'', JBool True)])])],
        written :=
        [[(''mcpServers'',
          JObj [(''test-server'',
                 JObj [(''command'', JStr ''python''),
                       (''args'', JArr [JStr ''-m'', JStr ''test_server'']),
                       (''disabled'', JBool True)])])]]\<rparr>)"
  using disable_server_contract [of test_world "''other''"]
    disable_server_contract [of bare_world "''test-server''"]
    disable_server_contract [of test_world "''test-server''"]
  by (simp add: test_world_def bare_world_def test_doc_def load_config_def
      configure_key_name_def with_entry_def save_config_def Let_def)

subsection \<open>Enabling a server\<close>



subsection \<open>Round trip\<close>

text \<open>
  Claim C3. After a successful \<open>disable_server n\<close> (it returned \<open>True\<close>, which it
  does only when \<open>n\<close> is a key of the server mapping), \<open>is_server_disabled n\<close> returns
  \<open>True\<close>; and after a following successful \<open>enable_server n\<close> it returns \<open>False\<close>
  again.
\<close>

theorem disable_enable_round_trip:
  assumes "disable_server n w = (Inr True, w1)"
  shows "is_server_disabled n w1 = (Inr True, w1)
         \<and> (\<forall>w2. enable_server n w1 = (Inr True, w2)
                \<longrightarrow> is_server_disabled n w2 = (Inr False, w2))"
proof -
  obtain servers entry where
    s: "map_of (load_config w) configure_key_name = Some (JObj servers)" and
    e: "map_of servers n = Some (JObj entry)" and
    sv: "save_config (with_entry (load_config w) n
           (JObj (AList.update ''disabled'' (JBool True) entry))) w = (True, w1)"
    using disable_server_success [OF assms] by blast
  let ?entry1 = "AList.update ''disabled'' (JBool True) entry"
  let ?servers1 = "AList.update n (JObj ?entry1) servers"
  have l1: "load_config w1 = with_entry (load_config w) n (JObj ?entry1)"
    using s sv by (rule load_after_save_entry)
  have s1: "map_of (load_config w1) configure_key_name = Some (JObj ?servers1)"
    using s by (simp add: l1 map_of_with_entry)
  have e1: "map_of ?servers1 n = Some (JObj ?entry1)"
    by (simp add: update_conv')
  have d1: "map_of ?entry1 ''disabled'' = Some (JBool True)"
    by (simp add: update_conv')
  have "fst (is_server_disabled n w1) = Inr True"
    using is_server_disabled_entry [OF s1 e1] d1 by simp
  then have first: "is_server_disabled n w1 = (Inr True, w1)"
    using is_server_disabled_world [of n w1] by (metis prod.collapse)
  have second: "is_server_disabled n w2 = (Inr False, w2)"
    if en: "enable_server n w1 = (Inr True, w2)" for w2
  proof -
    let ?entry2 = "AList.delete ''disabled'' ?entry1"
    let ?servers2 = "AList.update n (JObj ?entry2) ?servers1"
    have "enable_server n w1 =
            apfst Inr (save_config (with_entry (load_config w1) n (JObj ?entry2)) w1)"
      using s1 e1 d1 by (rule enable_server_disabled)
    with en have sv2: "save_config (with_entry (load_config w1) n (JObj ?entry2)) w1 = (True, w2)"
      by (simp add: apfst_Inr_eq)
    have l2: "load_config w2 = with_entry (load_config w1) n (JObj ?entry2)"
      using s1 sv2 by (rule load_after_save_entry)
    have s2: "map_of (load_config w2) configure_key_name = Some (JObj ?servers2)"
      using s1 by (simp add: l2 map_of_with_entry)
    have e2: "map_of ?servers2 n = Some (JObj ?entry2)"
      by (simp add: update_conv')
    have d2: "map_of ?entry2 ''disabled'' = None"
      by (simp add: delete_conv')
    have "fst (is_server_disabled n w2) = Inr False"
      using is_server_disabled_entry [OF s2 e2] d2 by simp
    then show ?thesis
      using is_server_disabled_world [of n w2] by (metis prod.collapse)
  qed
  from first second show ?thesis by blast
qed

text \<open>
  The run of the repository's own test: disable, check, enable, check.
\<close>

theorem disable_enable_round_trip_witness:
  "disable_server ''test-server'' test_world = (Inr True, disabled_world)
   \<and> is_server_disabled ''test-server'' disabled_world = (Inr True, disabled_world)
   \<and> enable_server ''test-server'' disabled_world = (Inr True, reenabled_world)
   \<and> is_server_disabled ''test-server'' reenabled_world = (Inr False, reenabled_world)"
proof -
  have h1: "disable_server ''test-server'' test_world = (Inr True, disabled_world)"
    by (simp add: disable_server_def not_found_def get_entry_def bind_err_def
        test_world_def disabled_world_def test_doc_def disabled_doc_def load_config_def
        configure_key_name_def with_entry_def save_config_def)
  have h2: "enable_server ''test-server'' disabled_world = (Inr True, reenabled_world)"
    by (simp add: enable_server_def not_found_def get_entry_def bind_err_def
        reenabled_world_def disabled_world_def test_doc_def disabled_doc_def load_config_def
        configure_key_name_def with_entry_def save_config_def AList.delete_eq)
  from disable_enable_round_trip [OF h1] h1 h2 show ?thesis by simp
qed

subsection \<open>The predicate\<close>

text \<open>
  Claim C4 says that \<open>is_server_disabled\<close> returns \<open>False\<close> in every condition other
  than the one in which it returns \<open>True\<close>, and never raises. In the document below the
  entry of \<^verbatim>\<open>a\<close> is the number 5, which has no method \<^verbatim>\<open>get\<close>: line 108 raises
  \<^verbatim>\<open>AttributeError\<close>.
\<close>

theorem is_server_disabled_entry_counterexample:
  "map_of (load_config odd_world) configure_key_name = Some (JObj [(''a'', JInt 5)])
   \<and> map_of [(''a'', JInt 5)] ''a'' = Some (JInt 5)
   \<and> is_server_disabled ''a'' odd_world = (Inl AttributeError, odd_world)"
  by (simp add: is_server_disabled_def get_entry_def bind_err_def odd_world_def
      load_config_def configure_key_name_def)

text \<open>
  Claim C4, amended. For every loaded document and every server name,
  \<open>is_server_disabled\<close> leaves the world as it is (nothing written, nothing logged),
  and it returns \<open>True\<close> exactly when the \<^verbatim>\<open>mcpServers\<close> key exists, the name is a
  key of the server mapping and the entry's \<^verbatim>\<open>disabled\<close> key holds the boolean
  \<open>True\<close>. It returns \<open>False\<close>, and does not raise, when the key is missing from the
  document, when the name is missing from the server mapping, and when the entry is a
  mapping whose \<^verbatim>\<open>disabled\<close> key is missing or holds anything but the boolean
  \<open>True\<close>.
\<close>

theorem is_server_disabled_contract:
  "snd (is_server_disabled name w) = w
   \<and> (fst (is_server_disabled name w) = Inr True \<longleftrightarrow>
        (\<exists>servers entry.
           map_of (load_config w) configure_key_name = Some (JObj servers) \<and>
           map_of servers name = Some (JObj entry) \<and>
           map_of entry ''disabled'' = Some (JBool True)))
   \<and> (map_of (load_config w) configure_key_name = None
        \<longrightarrow> fst (is_server_disabled name w) = Inr False)
   \<and> (\<forall>servers.
         map_of (load_config w) configure_key_name = Some (JObj servers) \<and>
         map_of servers name = None
         \<longrightarrow> fst (is_server_disabled name w) = Inr False)
   \<and> (\<forall>servers entry.
         map_of (load_config w) configure_key_name = Some (JObj servers) \<and>
         map_of servers name = Some (JObj entry) \<and>
         map_of entry ''disabled'' \<noteq> Some (JBool True)
         \<longrightarrow> fst (is_server_disabled name w) = Inr False)"
proof (intro conjI impI allI)
  show "snd (is_server_disabled name w) = w"
    by (rule is_server_disabled_world)
next
  show "fst (is_server_disabled name w) = Inr True \<longleftrightarrow>
        (\<exists>servers entry.
           map_of (load_config w) configure_key_name = Some (JObj servers) \<and>
           map_of servers name = Some (JObj entry) \<and>
           map_of entry ''disabled'' = Some (JBool True))"
    by (simp only: is_server_disabled_true_iff field_of_Some_iff)
next
  assume "map_of (load_config w) configure_key_name = None"
  then show "fst (is_server_disabled name w) = Inr False"
    by (rule is_server_disabled_absent)
next
  fix servers
  assume "map_of (load_config w) configure_key_name = Some (JObj servers) \<and>
         map_of servers name = None"
  then show "fst (is_server_disabled name w) = Inr False"
    by (simp add: is_server_disabled_no_name)
next
  fix servers entry
  assume "map_of (load_config w) configure_key_name = Some (JObj servers) \<and>
         map_of servers name = Some (JObj entry) \<and>
         map_of entry ''disabled'' \<noteq> Some (JBool True)"
  then show "fst (is_server_disabled name w) = Inr False"
    by (simp add: is_server_disabled_entry)
qed

text \<open>
  An entry with \<^verbatim>\<open>disabled: true\<close> is disabled; the entries without the key, with
  \<^verbatim>\<open>false\<close>, with \<^verbatim>\<open>1\<close> and with \<^verbatim>\<open>"true"\<close> are not, nor is an unknown name or
  a name in a document without the server mapping.
\<close>

theorem is_server_disabled_contract_witness:
  "is_server_disabled ''off'' mixed_world = (Inr True, mixed_world)
   \<and> is_server_disabled ''on'' mixed_world = (Inr False, mixed_world)
   \<and> is_server_disabled ''false'' mixed_world = (Inr False, mixed_world)
   \<and> is_server_disabled ''one'' mixed_world = (Inr False, mixed_world)
   \<and> is_server_disabled ''text'' mixed_world = (Inr False, mixed_world)
   \<and> is_server_disabled ''absent'' mixed_world = (Inr False, mixed_world)
   \<and> is_server_disabled ''on'' bare_world = (Inr False, bare_world)"
proof -
  have eq: "\<And>n w b. snd (is_server_disabled n w) = w \<Longrightarrow> fst (is_server_disabled n w) = Inr b
              \<Longrightarrow> is_server_disabled n w = (Inr b, w)"
    by (metis prod.collapse)
  have "is_server_disabled ''off'' mixed_world = (Inr True, mixed_world)"
    using is_server_disabled_contract [of "''off''" mixed_world]
    by (intro eq) (simp_all add: mixed_world_def load_config_def configure_key_name_def)
  moreover have "is_server_disabled ''on'' mixed_world = (Inr False, mixed_world)"
    using is_server_disabled_contract [of "''on''" mixed_world]
    by (intro eq) (simp_all add: mixed_world_def load_config_def configure_key_name_def)
  moreover have "is_server_disabled ''false'' mixed_world = (Inr False, mixed_world)"
    using is_server_disabled_contract [of "''false''" mixed_world]
    by (intro eq) (simp_all add: mixed_world_def load_config_def configure_key_name_def)
  moreover have "is_server_disabled ''one'' mixed_world = (Inr False, mixed_world)"
    using is_server_disabled_contract [of "''one''" mixed_world]
    by (intro eq) (simp_all add: mixed_world_def load_config_def configure_key_name_def)
  moreover have "is_server_disabled ''text'' mixed_world = (Inr False, mixed_world)"
    using is_server_disabled_contract [of "''text''" mixed_world]
    by (intro eq) (simp_all add: mixed_world_def load_config_def configure_key_name_def)
  moreover have "is_server_disabled ''absent'' mixed_world = (Inr False, mixed_world)"
    using is_server_disabled_contract [of "''absent''" mixed_world]
    by (intro eq) (simp_all add: mixed_world_def load_config_def configure_key_name_def)
  moreover have "is_server_disabled ''on'' bare_world = (Inr False, bare_world)"
    using is_server_disabled_contract [of "''on''" bare_world]
    by (intro eq) (simp_all add: bare_world_def load_config_def configure_key_name_def)
  ultimately show ?thesis by blast
qed

subsection \<open>Enabling a server that is already enabled\<close>



subsection \<open>Path resolution\<close>

text \<open>
  Claim C6 says that an explicit path supplied at construction is stored verbatim and
  overrides the resolution. The empty string, passed as \<^verbatim>\<open>config_path\<close>, is not
  stored: \<^verbatim>\<open>if config_path:\<close> is false of it, and the path is resolved from the host
  as if nothing had been passed.
\<close>

theorem empty_config_path_counterexample:
  "fst (init posix_expanduser posix_join unset_environ ''Linux'' (Some []) test_world) =
     ''/home/u/.config/Code/User/globalStorage/kilocode.kilo-code/settings/mcp_settings.json''
   \<and> fst (init posix_expanduser posix_join unset_environ ''Linux'' (Some []) test_world) \<noteq> []"
  by (simp add: init_def posix_expanduser_def)

text \<open>
  Claim C6, amended. When \<^verbatim>\<open>config_path\<close> is not supplied, or is the empty string,
  the resolved path depends on the host alone, in three branches: on \<^verbatim>\<open>Darwin\<close> the
  home-expanded \<^verbatim>\<open>~/Library/Application Support/Code/User/globalStorage/kilocode.kilo-code/settings/mcp_settings.json\<close>,
  on \<^verbatim>\<open>Windows\<close> the join of \<^verbatim>\<open>APPDATA\<close>, or of the empty string when the
  variable is unset, with \<^verbatim>\<open>Code\<close>, \<^verbatim>\<open>User\<close>, \<^verbatim>\<open>globalStorage\<close>,
  \<^verbatim>\<open>kilocode.kilo-code\<close>, \<^verbatim>\<open>settings\<close>, \<^verbatim>\<open>mcp_settings.json\<close>, and on any other
  system the home-expanded
  \<^verbatim>\<open>~/.config/Code/User/globalStorage/kilocode.kilo-code/settings/mcp_settings.json\<close>.
  The constructor leaves the world as it is and its result does not depend on it. A
  non-empty \<^verbatim>\<open>config_path\<close> is stored verbatim, whatever the host.
\<close>

theorem config_path_resolution:
  "snd (init expanduser join environ system config_path w) = w
   \<and> fst (init expanduser join environ system config_path w) =
       fst (init expanduser join environ system config_path w')
   \<and> (config_path = None \<or> config_path = Some [] \<longrightarrow>
        (system = ''Darwin'' \<longrightarrow>
           fst (init expanduser join environ system config_path w) =
             expanduser ''~/Library/Application Support/Code/User/globalStorage/kilocode.kilo-code/settings/mcp_settings.json'')
      \<and> (system = ''Windows'' \<longrightarrow>
           (\<forall>appdata. environ ''APPDATA'' = Some appdata \<longrightarrow>
              fst (init expanduser join environ system config_path w) =
                join appdata [''Code'', ''User'', ''globalStorage'', ''kilocode.kilo-code'',
                              ''settings'', ''mcp_settings.json''])
         \<and> (environ ''APPDATA'' = None \<longrightarrow>
              fst (init expanduser join environ system config_path w) =
                join [] [''Code'', ''User'', ''globalStorage'', ''kilocode.kilo-code'',
                         ''settings'', ''mcp_settings.json'']))
      \<and> (system \<noteq> ''Darwin'' \<and> system \<noteq> ''Windows'' \<longrightarrow>
           fst (init expanduser join environ system config_path w) =
             expanduser ''~/.config/Code/User/globalStorage/kilocode.kilo-code/settings/mcp_settings.json''))
   \<and> (\<forall>p. config_path = Some p \<and> p \<noteq> [] \<longrightarrow>
          fst (init expanduser join environ system config_path w) = p)"
proof (intro conjI)
  show "snd (init expanduser join environ system config_path w) = w"
    by (simp add: init_def)
  show "fst (init expanduser join environ system config_path w) =
       fst (init expanduser join environ system config_path w')"
    by (simp add: init_def)
  show "\<forall>p. config_path = Some p \<and> p \<noteq> [] \<longrightarrow>
          fst (init expanduser join environ system config_path w) = p"
    by (simp add: init_def)
  show "config_path = None \<or> config_path = Some [] \<longrightarrow>
        (system = ''Darwin'' \<longrightarrow>
           fst (init expanduser join environ system config_path w) =
             expanduser ''~/Library/Application Support/Code/User/globalStorage/kilocode.kilo-code/settings/mcp_settings.json'')
      \<and> (system = ''Windows'' \<longrightarrow>
           (\<forall>appdata. environ ''APPDATA'' = Some appdata \<longrightarrow>
              fst (init expanduser join environ system config_path w) =
                join appdata [''Code'', ''User'', ''globalStorage'', ''kilocode.kilo-code'',
                              ''settings'', ''mcp_settings.json''])
         \<and> (environ ''APPDATA'' = None \<longrightarrow>
              fst (init expanduser join environ system config_path w) =
                join [] [''Code'', ''User'', ''globalStorage'', ''kilocode.kilo-code'',
                         ''settings'', ''mcp_settings.json'']))
      \<and> (system \<noteq> ''Darwin'' \<and> system \<noteq> ''Windows'' \<longrightarrow>
           fst (init expanduser join environ system config_path w) =
             expanduser ''~/.config/Code/User/globalStorage/kilocode.kilo-code/settings/mcp_settings.json'')"
    by (auto simp: init_def)
qed

text \<open>
  With a home directory \<^verbatim>\<open>/home/u\<close> and POSIX joining: the three branches, the
  Windows branch with \<^verbatim>\<open>APPDATA\<close> unset, a system that is none of the three names,
  and the explicit path of the repository's own test.
\<close>

theorem config_path_resolution_witness:
  "init posix_expanduser posix_join unset_environ ''Darwin'' None test_world =
     (''/home/u/Library/Application Support/Code/User/globalStorage/kilocode.kilo-code/settings/mcp_settings.json'',
      test_world)
   \<and> fst (init posix_expanduser posix_join
            test_environ
            ''Windows'' None test_world) =
     ''C:/Users/Test/AppData/Roaming/Code/User/globalStorage/kilocode.kilo-code/settings/mcp_settings.json''
   \<and> fst (init posix_expanduser posix_join unset_environ ''Windows'' None test_world) =
     ''Code/User/globalStorage/kilocode.kilo-code/settings/mcp_settings.json''
   \<and> fst (init posix_expanduser posix_join unset_environ ''Linux'' None test_world) =
     ''/home/u/.config/Code/User/globalStorage/kilocode.kilo-code/settings/mcp_settings.json''
   \<and> fst (init posix_expanduser posix_join unset_environ ''FreeBSD'' None test_world) =
     ''/home/u/.config/Code/User/globalStorage/kilocode.kilo-code/settings/mcp_settings.json''
   \<and> fst (init posix_expanduser posix_join unset_environ ''Darwin''
            (Some ''/custom/path/config.json'') test_world) = ''/custom/path/config.json''"
proof -
  let ?segments = "[''Code'', ''User'', ''globalStorage'', ''kilocode.kilo-code'', ''settings'',
                    ''mcp_settings.json'']"
  have ne: "''Linux'' \<noteq> ''Darwin''" "''Linux'' \<noteq> ''Windows''"
    "''FreeBSD'' \<noteq> ''Darwin''" "''FreeBSD'' \<noteq> ''Windows''"
    "''/custom/path/config.json'' \<noteq> []"
    by simp_all
  have env: "test_environ ''APPDATA'' = Some ''C:/Users/Test/AppData/Roaming''"
    "unset_environ ''APPDATA'' = None"
    by (simp_all add: test_environ_def unset_environ_def)
  have mac: "posix_expanduser ''~/Library/Application Support/Code/User/globalStorage/kilocode.kilo-code/settings/mcp_settings.json'' =
      ''/home/u/Library/Application Support/Code/User/globalStorage/kilocode.kilo-code/settings/mcp_settings.json''"
    by (simp add: posix_expanduser_def)
  have other: "posix_expanduser ''~/.config/Code/User/globalStorage/kilocode.kilo-code/settings/mcp_settings.json'' =
      ''/home/u/.config/Code/User/globalStorage/kilocode.kilo-code/settings/mcp_settings.json''"
    by (simp add: posix_expanduser_def)
  have win: "posix_join ''C:/Users/Test/AppData/Roaming'' ?segments =
      ''C:/Users/Test/AppData/Roaming/Code/User/globalStorage/kilocode.kilo-code/settings/mcp_settings.json''"
    by simp
  have unset: "posix_join [] ?segments =
      ''Code/User/globalStorage/kilocode.kilo-code/settings/mcp_settings.json''"
    by simp
  have "fst (init posix_expanduser posix_join unset_environ ''Darwin'' None test_world) =
      posix_expanduser ''~/Library/Application Support/Code/User/globalStorage/kilocode.kilo-code/settings/mcp_settings.json''"
    and "snd (init posix_expanduser posix_join unset_environ ''Darwin'' None test_world) = test_world"
    using config_path_resolution [of posix_expanduser posix_join unset_environ "''Darwin''" None
        test_world test_world]
    by blast+
  then have c1: "init posix_expanduser posix_join unset_environ ''Darwin'' None test_world =
     (''/home/u/Library/Application Support/Code/User/globalStorage/kilocode.kilo-code/settings/mcp_settings.json'',
      test_world)"
    by (simp only: prod_eq_iff fst_conv snd_conv mac)
  have "fst (init posix_expanduser posix_join test_environ ''Windows'' None test_world) =
      posix_join ''C:/Users/Test/AppData/Roaming'' ?segments"
    using config_path_resolution [of posix_expanduser posix_join test_environ "''Windows''" None
        test_world test_world] env(1)
    by blast
  then have c2: "fst (init posix_expanduser posix_join test_environ ''Windows'' None test_world) =
     ''C:/Users/Test/AppData/Roaming/Code/User/globalStorage/kilocode.kilo-code/settings/mcp_settings.json''"
    by (simp only: win)
  have "fst (init posix_expanduser posix_join unset_environ ''Windows'' None test_world) =
      posix_join [] ?segments"
    using config_path_resolution [of posix_expanduser posix_join unset_environ "''Windows''" None
        test_world test_world] env(2)
    by blast
  then have c3: "fst (init posix_expanduser posix_join unset_environ ''Windows'' None test_world) =
     ''Code/User/globalStorage/kilocode.kilo-code/settings/mcp_settings.json''"
    by (simp only: unset)
  have "fst (init posix_expanduser posix_join unset_environ ''Linux'' None test_world) =
      posix_expanduser ''~/.config/Code/User/globalStorage/kilocode.kilo-code/settings/mcp_settings.json''"
    using config_path_resolution [of posix_expanduser posix_join unset_environ "''Linux''" None
        test_world test_world] ne(1,2)
    by blast
  then have c4: "fst (init posix_expanduser posix_join unset_environ ''Linux'' None test_world) =
     ''/home/u/.config/Code/User/globalStorage/kilocode.kilo-code/settings/mcp_settings.json''"
    by (simp only: other)
  have "fst (init posix_expanduser posix_join unset_environ ''FreeBSD'' None test_world) =
      posix_expanduser ''~/.config/Code/User/globalStorage/kilocode.kilo-code/settings/mcp_settings.json''"
    using config_path_resolution [of posix_expanduser posix_join unset_environ "''FreeBSD''" None
        test_world test_world] ne(3,4)
    by blast
  then have c5: "fst (init posix_expanduser posix_join unset_environ ''FreeBSD'' None test_world) =
     ''/home/u/.config/Code/User/globalStorage/kilocode.kilo-code/settings/mcp_settings.json''"
    by (simp only: other)
  have c6: "fst (init posix_expanduser posix_join unset_environ ''Darwin''
            (Some ''/custom/path/config.json'') test_world) = ''/custom/path/config.json''"
    using config_path_resolution [of posix_expanduser posix_join unset_environ "''Darwin''"
        "Some ''/custom/path/config.json''" test_world test_world] ne(5)
    by blast
  from c1 c2 c3 c4 c5 c6 show ?thesis
    by (intro conjI)
qed

subsection \<open>The server mapping before a mutation\<close>




subsection \<open>The two states of an entry\<close>

text \<open>
  Claim C8. From an entry that is active (no \<^verbatim>\<open>disabled\<close> key) or disabled
  (\<^verbatim>\<open>disabled: true\<close>), every sequence of \<open>disable_server\<close> and \<open>enable_server\<close>
  calls, on this or any other server name and whether the writes succeed or not, leaves
  the entry active or disabled: no reachable document has \<^verbatim>\<open>disabled: false\<close> on it.
  A successful \<open>disable_server\<close> on the entry leaves it disabled, the value set being
  \<open>True\<close>, and a successful \<open>enable_server\<close> leaves it active, the key being deleted.
\<close>

theorem entry_states_closed:
  assumes "state_of (load_config w) name = Some Active \<or>
           state_of (load_config w) name = Some Disabled"
  shows "(state_of (load_config (run calls w)) name = Some Active \<or>
          state_of (load_config (run calls w)) name = Some Disabled)
         \<and> field_of (load_config (run calls w)) name ''disabled'' \<noteq> Some (JBool False)
         \<and> (\<forall>w'. disable_server name w = (Inr True, w')
                \<longrightarrow> state_of (load_config w') name = Some Disabled)
         \<and> (\<forall>w'. enable_server name w = (Inr True, w')
                \<longrightarrow> state_of (load_config w') name = Some Active)"
proof (intro conjI allI impI)
  have start: "state_of (load_config w) name \<noteq> None"
    using assms by auto
  then have fin: "state_of (load_config (run calls w)) name \<noteq> None"
    by (rule run_keeps_state)
  then show "state_of (load_config (run calls w)) name = Some Active \<or>
          state_of (load_config (run calls w)) name = Some Disabled"
    by (simp only: state_of_cases)
  from fin show "field_of (load_config (run calls w)) name ''disabled'' \<noteq> Some (JBool False)"
    by (rule state_of_not_false)
next
  fix w'
  assume "disable_server name w = (Inr True, w')"
  then obtain servers entry where
    s: "map_of (load_config w) configure_key_name = Some (JObj servers)" and
    sv: "save_config (with_entry (load_config w) name
           (JObj (AList.update ''disabled'' (JBool True) entry))) w = (True, w')"
    using disable_server_success by blast
  show "state_of (load_config w') name = Some Disabled"
    using s by (simp add: load_after_save_entry [OF s sv] state_of_disabled_entry)
next
  fix w'
  assume en: "enable_server name w = (Inr True, w')"
  from assms obtain servers entry where
    s: "map_of (load_config w) configure_key_name = Some (JObj servers)" and
    e: "map_of servers name = Some (JObj entry)" and
    d: "map_of entry ''disabled'' = None \<or> map_of entry ''disabled'' = Some (JBool True)"
    using state_of_SomeD by blast
  from d show "state_of (load_config w') name = Some Active"
  proof
    assume none: "map_of entry ''disabled'' = None"
    then have "w' = warning (server_msg name '' is not disabled'') w"
      using en enable_server_not_disabled [OF s e none] by simp
    then show ?thesis
      using s e none by (simp add: state_of_def entry_of_def)
  next
    assume some: "map_of entry ''disabled'' = Some (JBool True)"
    have "enable_server name w =
            apfst Inr (save_config (with_entry (load_config w) name
                         (JObj (AList.delete ''disabled'' entry))) w)"
      using s e some by (rule enable_server_disabled)
    with en have sv: "save_config (with_entry (load_config w) name
                         (JObj (AList.delete ''disabled'' entry))) w = (True, w')"
      by (simp add: apfst_Inr_eq)
    show ?thesis
      using s by (simp add: load_after_save_entry [OF s sv] state_of_enabled_entry)
  qed
qed

text \<open>
  From the active entry of the test document: disabling it, then an unknown server, then
  it again leaves it disabled; disabling and enabling it, then a disable whose write
  fails, leaves it active.
\<close>

theorem entry_states_closed_witness:
  "state_of (load_config test_world) ''test-server'' = Some Active
   \<and> state_of (load_config (run [Disable ''test-server'', Disable ''other'',
         Disable ''test-server''] test_world)) ''test-server'' = Some Disabled
   \<and> state_of (load_config (run [Disable ''test-server'', Enable ''test-server'',
         SetWritable False, Disable ''test-server''] test_world)) ''test-server'' = Some Active
   \<and> field_of (load_config (run [Disable ''test-server'', Enable ''test-server'',
         SetWritable False, Disable ''test-server''] test_world)) ''test-server'' ''disabled''
       \<noteq> Some (JBool False)"
proof -
  have h: "state_of (load_config test_world) ''test-server'' = Some Active"
    by (simp add: state_of_def entry_of_def test_world_def test_doc_def load_config_def
        configure_key_name_def)
  have d: "snd (disable_server ''test-server'' test_world) = disabled_world"
    by (simp add: disable_server_def not_found_def get_entry_def bind_err_def
        test_world_def disabled_world_def test_doc_def disabled_doc_def load_config_def
        configure_key_name_def with_entry_def save_config_def)
  have e: "snd (enable_server ''test-server'' disabled_world) = reenabled_world"
    by (simp add: enable_server_def not_found_def get_entry_def bind_err_def
        reenabled_world_def disabled_world_def test_doc_def disabled_doc_def load_config_def
        configure_key_name_def with_entry_def save_config_def AList.delete_eq)
  have o: "load_config (snd (disable_server ''other'' disabled_world)) = disabled_doc"
    by (simp add: disable_server_def not_found_def get_entry_def bind_err_def warning_def
        disabled_world_def disabled_doc_def load_config_def configure_key_name_def Let_def)
  have d2: "load_config (snd (disable_server ''test-server''
              (snd (disable_server ''other'' disabled_world)))) = disabled_doc"
    by (simp add: disable_server_def not_found_def get_entry_def bind_err_def warning_def
        disabled_world_def disabled_doc_def load_config_def configure_key_name_def
        with_entry_def save_config_def Let_def)
  have r: "load_config (snd (disable_server ''test-server''
              (reenabled_world\<lparr>writable := False\<rparr>))) = test_doc"
    by (simp add: disable_server_def not_found_def get_entry_def bind_err_def
        reenabled_world_def test_doc_def load_config_def configure_key_name_def
        with_entry_def save_config_def Let_def)
  have s1: "state_of disabled_doc ''test-server'' = Some Disabled"
    by (simp add: state_of_def entry_of_def disabled_doc_def configure_key_name_def)
  have s2: "state_of test_doc ''test-server'' = Some Active"
    by (simp add: state_of_def entry_of_def test_doc_def configure_key_name_def)
  from entry_states_closed [of test_world "''test-server''"
      "[Disable ''test-server'', Enable ''test-server'', SetWritable False,
        Disable ''test-server'']"] h
  have "field_of (load_config (run [Disable ''test-server'', Enable ''test-server'',
         SetWritable False, Disable ''test-server''] test_world)) ''test-server'' ''disabled''
       \<noteq> Some (JBool False)"
    by blast
  with h d e d2 r s1 s2 show ?thesis
    by simp
qed

subsection \<open>What a successful disable changes\<close>

text \<open>
  Claim C9. A successful \<open>disable_server\<close> changes only the \<^verbatim>\<open>disabled\<close> key of the
  named entry in the persisted document: the entry is the old one with
  \<^verbatim>\<open>"disabled": true\<close> set, every other field of it reads as before, every other
  server entry is as before, the server names and their order are as before, and so are
  the other members of the document.
\<close>

theorem disable_server_frame:
  assumes "disable_server name w = (Inr True, w')"
  shows "\<exists>doc doc' entry.
           stored w = Document doc \<and> stored w' = Document doc' \<and>
           entry_of doc name = Some (JObj entry) \<and>
           entry_of doc' name = Some (JObj (AList.update ''disabled'' (JBool True) entry)) \<and>
           field_of doc' name ''disabled'' = Some (JBool True) \<and>
           (\<forall>key. key \<noteq> ''disabled'' \<longrightarrow> field_of doc' name key = field_of doc name key) \<and>
           (\<forall>n. n \<noteq> name \<longrightarrow> entry_of doc' n = entry_of doc n) \<and>
           server_names doc' = server_names doc \<and>
           (\<forall>k. k \<noteq> configure_key_name \<longrightarrow> map_of doc' k = map_of doc k) \<and>
           map fst doc' = map fst doc"
proof -
  obtain servers entry where
    s: "map_of (load_config w) configure_key_name = Some (JObj servers)" and
    e: "map_of servers name = Some (JObj entry)" and
    sv: "save_config (with_entry (load_config w) name
           (JObj (AList.update ''disabled'' (JBool True) entry))) w = (True, w')"
    using disable_server_success [OF assms] by blast
  let ?doc = "load_config w"
  let ?entry' = "AList.update ''disabled'' (JBool True) entry"
  let ?doc' = "with_entry ?doc name (JObj ?entry')"
  have before: "stored w = Document ?doc"
    using s e by (rule found_is_document)
  have after: "stored w' = Document ?doc'"
    using save_config_cases [OF sv] by auto
  have e0: "entry_of ?doc name = Some (JObj entry)"
    using s e by (simp add: entry_of_def)
  have e1: "entry_of ?doc' name = Some (JObj ?entry')"
    using s by (simp add: entry_of_with_entry)
  have f1: "field_of ?doc' name ''disabled'' = Some (JBool True)"
    using e1 by (simp add: field_of_def update_conv')
  have f2: "\<forall>key. key \<noteq> ''disabled'' \<longrightarrow> field_of ?doc' name key = field_of ?doc name key"
    using e0 e1 by (simp add: field_of_def update_conv')
  have o: "\<forall>n. n \<noteq> name \<longrightarrow> entry_of ?doc' n = entry_of ?doc n"
    using s by (simp add: entry_of_with_entry) (simp add: entry_of_def)
  have names: "server_names ?doc' = server_names ?doc"
    using s e by (simp add: server_names_def map_of_with_entry update_present_keys)
  have top: "\<forall>k. k \<noteq> configure_key_name \<longrightarrow> map_of ?doc' k = map_of ?doc k"
    using s by (simp add: with_entry_obj update_conv')
  have keys: "map fst ?doc' = map fst ?doc"
    using s by (simp add: with_entry_obj update_present_keys)
  from before after e0 e1 f1 f2 o names top keys show ?thesis
    by blast
qed

text \<open>
  The test document before and after: \<^verbatim>\<open>command\<close> and \<^verbatim>\<open>args\<close> are kept, the flag
  is there.
\<close>

theorem disable_server_frame_witness:
  "disable_server ''test-server'' test_world = (Inr True, disabled_world)
   \<and> stored test_world = Document test_doc \<and> stored disabled_world = Document disabled_doc
   \<and> field_of disabled_doc ''test-server'' ''disabled'' = Some (JBool True)
   \<and> field_of disabled_doc ''test-server'' ''command'' =
       field_of test_doc ''test-server'' ''command''
   \<and> field_of disabled_doc ''test-server'' ''args'' = field_of test_doc ''test-server'' ''args''
   \<and> server_names disabled_doc = server_names test_doc"
proof -
  have h: "disable_server ''test-server'' test_world = (Inr True, disabled_world)"
    by (simp add: disable_server_def not_found_def get_entry_def bind_err_def
        test_world_def disabled_world_def test_doc_def disabled_doc_def load_config_def
        configure_key_name_def with_entry_def save_config_def)
  from disable_server_frame [OF h] obtain doc doc' where
    "stored test_world = Document doc" "stored disabled_world = Document doc'"
    "field_of doc' ''test-server'' ''disabled'' = Some (JBool True)"
    "\<forall>key. key \<noteq> ''disabled'' \<longrightarrow>
       field_of doc' ''test-server'' key = field_of doc ''test-server'' key"
    "server_names doc' = server_names doc"
    by blast
  then show ?thesis
    using h by (simp add: test_world_def disabled_world_def)
qed

subsection \<open>A failed lookup writes nothing\<close>

text \<open>
  Claim C10. Whenever the \<^verbatim>\<open>mcpServers\<close> key is absent from the loaded document or
  the name is not a key of the server mapping, \<open>disable_server\<close> and \<open>enable_server\<close>
  return \<open>False\<close> and perform no write: the stored file is what it was before the call,
  and no document has been added to the written ones.
\<close>

theorem failed_lookup_writes_nothing:
  assumes "map_of (load_config w) configure_key_name = None \<or>
    (\<exists>servers. map_of (load_config w) configure_key_name = Some (JObj servers) \<and>
               map_of servers name = None)"
  shows "fst (disable_server name w) = Inr False
         \<and> stored (snd (disable_server name w)) = stored w
         \<and> written (snd (disable_server name w)) = written w
         \<and> fst (enable_server name w) = Inr False
         \<and> stored (snd (enable_server name w)) = stored w
         \<and> written (snd (enable_server name w)) = written w"
proof -
  have "not_found (load_config w) name = Inr True"
    using assms by (rule not_found_data)
  then show ?thesis
    by (simp add: disable_server_not_found enable_server_not_found)
qed

text \<open>
  An unknown name in the test document, and any name in a document without the server
  mapping.
\<close>

theorem failed_lookup_writes_nothing_witness:
  "fst (disable_server ''other'' test_world) = Inr False
   \<and> stored (snd (disable_server ''other'' test_world)) = Document test_doc
   \<and> written (snd (disable_server ''other'' test_world)) = []
   \<and> fst (enable_server ''other'' test_world) = Inr False
   \<and> stored (snd (enable_server ''other'' test_world)) = Document test_doc
   \<and> written (snd (enable_server ''other'' test_world)) = []
   \<and> fst (disable_server ''other'' bare_world) = Inr False
   \<and> stored (snd (enable_server ''other'' bare_world)) = Document []"
  using failed_lookup_writes_nothing [of test_world "''other''"]
    failed_lookup_writes_nothing [of bare_world "''other''"]
  by (simp add: test_world_def bare_world_def test_doc_def load_config_def
      configure_key_name_def)

end
